theory Spec2Isabelle
  imports Complex_Main
begin

section \<open>The CPU nonbonded force kernel of OpenMM (platforms/cpu/src/CpuKernels.cpp)\<close>

text \<open>
  The kernel object \<open>CpuCalcNonbondedForceKernel\<close> has three operations:
  \<open>initialize\<close>, \<open>execute\<close> and \<open>copyParametersToContext\<close>. Each is embedded as a
  function that takes the kernel's fields and returns them updated.

  Numbers. A C++ \<open>double\<close> is modelled as a \<open>real\<close>: rounding of double arithmetic,
  infinities and NaN are outside the model. A \<open>float\<close> is a \<open>real\<close> as well, and the
  narrowing conversion \<open>(float) x\<close> is the function \<open>toFloat\<close>, a parameter about which
  nothing is assumed. An \<open>int\<close> used as a particle index is an \<open>int\<close>; a vector size
  or loop counter is a \<open>nat\<close>.

  Undefined behaviour. Subscripting a \<open>std::vector\<close> outside its bounds is undefined in
  C++. The model makes it the error \<open>IndexOutOfRange\<close>, so no theorem depends on what
  such an access would return.
\<close>

subsection \<open>Errors and the for loop\<close>

text \<open>
  \<open>TopologyChanged\<close> and \<open>PeriodicBoxTooSmall\<close> are the failures the specification
  names for \<open>updateParameters\<close> and \<open>execute\<close>. \<open>IndexOutOfRange\<close> stands for an
  out-of-bounds vector access.
\<close>

datatype error = IndexOutOfRange | TopologyChanged | PeriodicBoxTooSmall

text \<open>\<open>andThen r f\<close> continues with \<open>f\<close> unless \<open>r\<close> is an error.\<close>

fun andThen :: "error + 'a \<Rightarrow> ('a \<Rightarrow> error + 'b) \<Rightarrow> error + 'b" where
  "andThen (Inl e) f = Inl e"
| "andThen (Inr x) f = f x"

text \<open>
  \<open>forLoop [0..<n] body s\<close> is \<open>for (int i = 0; i < n; i++) body\<close> started in state
  \<open>s\<close>; an error in an iteration ends the loop.
\<close>

fun forLoop :: "nat list \<Rightarrow> (nat \<Rightarrow> 's \<Rightarrow> error + 's) \<Rightarrow> 's \<Rightarrow> error + 's" where
  "forLoop [] body s = Inr s"
| "forLoop (i # is) body s = andThen (body i s) (forLoop is body)"

text \<open>Reading and writing \<open>v[i]\<close> of a \<open>std::vector\<close>.\<close>

definition fetch :: "'a list \<Rightarrow> nat \<Rightarrow> error + 'a" where
  "fetch v i = (if i < length v then Inr (v ! i) else Inl IndexOutOfRange)"

definition store :: "'a list \<Rightarrow> nat \<Rightarrow> 'a \<Rightarrow> error + 'a list" where
  "store v i x = (if i < length v then Inr (v[i := x]) else Inl IndexOutOfRange)"

text \<open>
  A vector subscripted with an \<open>int\<close>: a negative index converts to a huge
  \<open>size_t\<close> and is out of bounds.
\<close>

definition validIndex :: "int \<Rightarrow> 'a list \<Rightarrow> bool" where
  "validIndex p v = (0 \<le> p \<and> p < int (length v))"

text \<open>\<open>v.resize(n, d)\<close>: keep the first \<open>n\<close> elements, pad with \<open>d\<close>.\<close>

definition resize :: "nat \<Rightarrow> 'a \<Rightarrow> 'a list \<Rightarrow> 'a list" where
  "resize n d v = take n v @ replicate (n - length v) d"

subsection \<open>The host's data: force configuration and context\<close>

datatype NonbondedMethod = NoCutoff | CutoffNonPeriodic | CutoffPeriodic | Ewald | PME

text \<open>
  \<open>NonbondedForce\<close>, as far as the kernel reads it. A particle is
  (charge, radius, depth); an exception is
  (particle1, particle2, chargeProd, sigma, epsilon).
\<close>

record NonbondedForce =
  particleParameters :: "(real \<times> real \<times> real) list"
  exceptionParameters :: "(int \<times> int \<times> real \<times> real \<times> real) list"
  getNonbondedMethod :: NonbondedMethod
  getCutoffDistance :: real
  getUseSwitchingFunction :: bool
  getSwitchingDistance :: real
  getReactionFieldDielectric :: real
  getUseDispersionCorrection :: bool

definition getNumParticles :: "NonbondedForce \<Rightarrow> nat" where
  "getNumParticles force = length (particleParameters force)"

definition getNumExceptions :: "NonbondedForce \<Rightarrow> nat" where
  "getNumExceptions force = length (exceptionParameters force)"

type_synonym RealVec = "real \<times> real \<times> real"

text \<open>\<open>v[j]\<close> for a \<open>RealVec\<close>; the source only uses \<open>j\<close> = 0, 1, 2.\<close>

fun component :: "RealVec \<Rightarrow> nat \<Rightarrow> real" where
  "component (x, y, z) j = (if j = 0 then x else if j = 1 then y else z)"

text \<open>
  The platform data of the context: what \<open>extractPositions\<close>,
  \<open>extractVelocities\<close>, \<open>extractForces\<close> and \<open>extractBoxSize\<close> return.
\<close>

record ContextImpl =
  positions :: "RealVec list"
  velocities :: "RealVec list"
  forces :: "RealVec list"
  periodicBoxSize :: RealVec

definition extractPositions :: "ContextImpl \<Rightarrow> RealVec list" where
  "extractPositions context = positions context"

definition extractVelocities :: "ContextImpl \<Rightarrow> RealVec list" where
  "extractVelocities context = velocities context"

definition extractForces :: "ContextImpl \<Rightarrow> RealVec list" where
  "extractForces context = forces context"

definition extractBoxSize :: "ContextImpl \<Rightarrow> RealVec" where
  "extractBoxSize context = periodicBoxSize context"

subsection \<open>Collaborators outside the file\<close>

text \<open>
  The kernel calls code that is not in this file. Each is a parameter:
  the float conversion, \<open>CpuNeighborList::computeNeighborList\<close> (which updates the
  neighbor list object from its arguments), \<open>NonbondedForceImpl::calcEwaldParameters\<close>
  and \<open>calcPMEParameters\<close> (which return alpha and three integers), and the analytic
  Lennard-Jones tail coefficient used by \<open>calcDispersionCorrection\<close>. A collaborator
  is a total function: an exception thrown inside one is outside the model.
\<close>

record ('sys, 'nl) collaborators =
  toFloat :: "real \<Rightarrow> real"
  computeNeighborList ::
    "'nl \<Rightarrow> nat \<Rightarrow> real list \<Rightarrow> int set list \<Rightarrow> RealVec \<Rightarrow> bool \<Rightarrow> real \<Rightarrow> 'nl"
  calcEwaldParameters :: "'sys \<Rightarrow> NonbondedForce \<Rightarrow> real \<times> int \<times> int \<times> int"
  calcPMEParameters :: "'sys \<Rightarrow> NonbondedForce \<Rightarrow> real \<times> int \<times> int \<times> int"
  ljTailCoefficient :: "'sys \<Rightarrow> NonbondedForce \<Rightarrow> real"

definition isPeriodicMethod :: "NonbondedMethod \<Rightarrow> bool" where
  "isPeriodicMethod m = (m = CutoffPeriodic \<or> m = Ewald \<or> m = PME)"

text \<open>
  Modelled from the spec: \<open>NonbondedForceImpl::calcDispersionCorrection\<close> is called by
  \<open>initialize\<close> and is not in the file. Section 4.2 of the specification: "if enabled,
  compute the analytic long-range Lennard-Jones tail correction as a function of all
  particle LJ parameters and the (implied) system density; zero if disabled or method is
  non-periodic". The analytic coefficient itself is the parameter \<open>ljTailCoefficient\<close>.
\<close>

definition calcDispersionCorrection ::
  "('sys, 'nl) collaborators \<Rightarrow> 'sys \<Rightarrow> NonbondedForce \<Rightarrow> real" where
  "calcDispersionCorrection E system force =
     (if getUseDispersionCorrection force \<and> isPeriodicMethod (getNonbondedMethod force)
      then ljTailCoefficient E system force else 0)"

subsection \<open>The kernel's fields\<close>

record 'nl CpuCalcNonbondedForceKernel =
  numParticles :: nat
  num14 :: nat
  exclusions :: "int set list"
  posq :: "real list"
  nonbondedMethod :: NonbondedMethod
  nonbondedCutoff :: real
  useSwitchingFunction :: bool
  switchingDistance :: real
  ewaldAlpha :: real
  kmax :: "int \<times> int \<times> int"
  gridSize :: "int \<times> int \<times> int"
  rfDielectric :: real
  dispersionCoefficient :: real
  neighborList :: 'nl

text \<open>
  A kernel object right after its construction: the two vectors are empty; the scalar
  fields hold whatever they hold.
\<close>

definition constructed :: "'nl CpuCalcNonbondedForceKernel \<Rightarrow> bool" where
  "constructed k = (exclusions k = [] \<and> posq k = [])"

subsection \<open>initialize\<close>

text \<open>
  The body of the loop over the exceptions (lines 71 to 79). Its state is the
  exclusion vector and the local \<open>nb14s\<close>.
\<close>

definition exceptionBody ::
  "NonbondedForce \<Rightarrow> nat \<Rightarrow> int set list \<times> nat list \<Rightarrow> error + (int set list \<times> nat list)" where
  "exceptionBody force i s =
     (case s of (excl, nb14s) \<Rightarrow>
      case exceptionParameters force ! i of (particle1, particle2, chargeProd, sigma, epsilon) \<Rightarrow>
        if \<not> validIndex particle1 excl then Inl IndexOutOfRange
        else let excl1 = excl[nat particle1 := insert particle2 (excl ! nat particle1)] in
          if \<not> validIndex particle2 excl1 then Inl IndexOutOfRange
          else let excl2 = excl1[nat particle2 := insert particle1 (excl1 ! nat particle2)] in
            Inr (excl2, if chargeProd \<noteq> 0 \<or> epsilon \<noteq> 0 then nb14s @ [i] else nb14s))"

text \<open>The body of the loop over the particles (lines 88 to 95).\<close>

definition chargeBody ::
  "('sys, 'nl) collaborators \<Rightarrow> NonbondedForce \<Rightarrow> nat \<Rightarrow> real list \<Rightarrow> error + real list" where
  "chargeBody E force i pq =
     (case particleParameters force ! i of (charge, radius, depth) \<Rightarrow>
        store pq (4 * i + 3) (toFloat E charge))"

definition initialize ::
  "('sys, 'nl) collaborators \<Rightarrow> 'nl CpuCalcNonbondedForceKernel \<Rightarrow> 'sys \<Rightarrow> NonbondedForce
     \<Rightarrow> error + 'nl CpuCalcNonbondedForceKernel" where
  "initialize E k system force =
     (let k1 = k\<lparr>numParticles := getNumParticles force\<rparr>;
          k2 = k1\<lparr>exclusions := resize (numParticles k1) {} (exclusions k1)\<rparr>
      in andThen (forLoop [0..<getNumExceptions force] (exceptionBody force) (exclusions k2, []))
        (\<lambda>(excl, nb14s).
          let k3 = k2\<lparr>exclusions := excl, num14 := length nb14s\<rparr>;
              k4 = k3\<lparr>posq := resize (4 * numParticles k3) 0 (posq k3)\<rparr>
          in andThen (forLoop [0..<numParticles k4] (chargeBody E force) (posq k4))
            (\<lambda>pq.
              let k5 = k4\<lparr>posq := pq,
                         nonbondedMethod := getNonbondedMethod force,
                         nonbondedCutoff := getCutoffDistance force\<rparr>;
                  k6 = (if nonbondedMethod k5 = NoCutoff
                        then k5\<lparr>useSwitchingFunction := False\<rparr>
                        else k5\<lparr>useSwitchingFunction := getUseSwitchingFunction force,
                                switchingDistance := getSwitchingDistance force\<rparr>);
                  k7 = (if nonbondedMethod k6 = Ewald
                        then (case calcEwaldParameters E system force of
                                (alpha, kx, ky, kz) \<Rightarrow> k6\<lparr>kmax := (kx, ky, kz), ewaldAlpha := alpha\<rparr>)
                        else if nonbondedMethod k6 = PME
                        then (case calcPMEParameters E system force of
                                (alpha, gx, gy, gz) \<Rightarrow> k6\<lparr>gridSize := (gx, gy, gz), ewaldAlpha := alpha\<rparr>)
                        else k6);
                  k8 = k7\<lparr>rfDielectric := getReactionFieldDielectric force\<rparr>
              in Inr (if getUseDispersionCorrection force
                      then k8\<lparr>dispersionCoefficient := calcDispersionCorrection E system force\<rparr>
                      else k8\<lparr>dispersionCoefficient := 0\<rparr>))))"

subsection \<open>execute\<close>

text \<open>
  The two conversion loops (lines 145 to 157). In the periodic branch the inner loop
  runs over the three axes.
\<close>

definition wrapBody ::
  "('sys, 'nl) collaborators \<Rightarrow> RealVec list \<Rightarrow> RealVec \<Rightarrow> nat \<Rightarrow> nat \<Rightarrow> real list
     \<Rightarrow> error + real list" where
  "wrapBody E posData boxSize i j pq =
     andThen (fetch posData i) (\<lambda>p.
       let x = component p j;
           base = of_int \<lfloor>x / component boxSize j + 0.5\<rfloor> * component boxSize j
       in store pq (4 * i + j) (toFloat E (x - base)))"

definition copyBody ::
  "('sys, 'nl) collaborators \<Rightarrow> RealVec list \<Rightarrow> nat \<Rightarrow> real list \<Rightarrow> error + real list" where
  "copyBody E posData i pq =
     andThen (fetch posData i) (\<lambda>p0.
     andThen (store pq (4 * i) (toFloat E (component p0 0))) (\<lambda>pq1.
     andThen (fetch posData i) (\<lambda>p1.
     andThen (store pq1 (4 * i + 1) (toFloat E (component p1 1))) (\<lambda>pq2.
     andThen (fetch posData i) (\<lambda>p2.
     store pq2 (4 * i + 2) (toFloat E (component p2 2)))))))"

text \<open>
  \<open>execute\<close> returns the energy; the model returns with it the kernel's fields and the
  context, so that what the call writes can be stated.
\<close>

definition execute ::
  "('sys, 'nl) collaborators \<Rightarrow> 'nl CpuCalcNonbondedForceKernel \<Rightarrow> ContextImpl
     \<Rightarrow> bool \<Rightarrow> bool \<Rightarrow> bool \<Rightarrow> bool
     \<Rightarrow> error + (real \<times> 'nl CpuCalcNonbondedForceKernel \<times> ContextImpl)" where
  "execute E k context includeForces includeEnergy includeDirect includeReciprocal =
     (let posData = extractPositions context;
          forceData = extractForces context;
          boxSize = extractBoxSize context;
          floatBoxSize = (toFloat E (component boxSize 0), toFloat E (component boxSize 1),
                          toFloat E (component boxSize 2));
          energy = (0 :: real);
          periodic = (nonbondedMethod k = CutoffPeriodic);
          ewald = (nonbondedMethod k = Ewald);
          pme = (nonbondedMethod k = PME)
      in andThen
           (if periodic
            then forLoop [0..<numParticles k]
                   (\<lambda>i. forLoop [0..<3] (wrapBody E posData boxSize i)) (posq k)
            else forLoop [0..<numParticles k] (copyBody E posData) (posq k))
           (\<lambda>pq.
             let k1 = k\<lparr>posq := pq\<rparr>;
                 k2 = k1\<lparr>neighborList :=
                        computeNeighborList E (neighborList k1) (numParticles k1) (posq k1)
                          (exclusions k1) floatBoxSize (periodic \<or> ewald \<or> pme)
                          (nonbondedCutoff k1)\<rparr>
             in Inr (0, k2, context)))"

subsection \<open>copyParametersToContext\<close>

text \<open>The body of the function is empty: every statement of it is commented out.\<close>

definition copyParametersToContext ::
  "'nl CpuCalcNonbondedForceKernel \<Rightarrow> ContextImpl \<Rightarrow> NonbondedForce
     \<Rightarrow> error + 'nl CpuCalcNonbondedForceKernel" where
  "copyParametersToContext k context force = Inr k"

subsection \<open>Notions of the specification\<close>

text \<open>
  An exception is a scaled 1-4 pair when its charge product or its well depth is
  nonzero (specification, section 3).
\<close>

fun isScaledPair :: "int \<times> int \<times> real \<times> real \<times> real \<Rightarrow> bool" where
  "isScaledPair (particle1, particle2, chargeProd, sigma, epsilon) =
     (chargeProd \<noteq> 0 \<or> epsilon \<noteq> 0)"

text \<open>
  \<open>configuredExclusion force n a b\<close>: one of the first \<open>n\<close> configured exceptions
  pairs particle \<open>a\<close> with particle \<open>b\<close>, in either order.
\<close>

definition configuredExclusion :: "NonbondedForce \<Rightarrow> nat \<Rightarrow> nat \<Rightarrow> int \<Rightarrow> bool" where
  "configuredExclusion force n a b =
     (\<exists>i < n. case exceptionParameters force ! i of
        (particle1, particle2, chargeProd, sigma, epsilon) \<Rightarrow>
          (particle1 = int a \<and> particle2 = b) \<or> (particle2 = int a \<and> particle1 = b))"

text \<open>
  The invariant of the exception loop after \<open>n\<close> iterations started with the exclusion
  vector \<open>excl0\<close>: the vector keeps its size, \<open>nb14s\<close> holds the indices of the scaled
  pairs seen, the indices of the exceptions seen are valid, and the exclusion sets have
  grown by exactly the pairs seen.
\<close>

definition exceptionInv ::
  "NonbondedForce \<Rightarrow> int set list \<Rightarrow> nat \<Rightarrow> int set list \<times> nat list \<Rightarrow> bool" where
  "exceptionInv force excl0 n s =
     (case s of (excl, nb14s) \<Rightarrow>
        length excl = length excl0
        \<and> nb14s = filter (\<lambda>i. isScaledPair (exceptionParameters force ! i)) [0..<n]
        \<and> (\<forall>i < n. case exceptionParameters force ! i of
              (particle1, particle2, chargeProd, sigma, epsilon) \<Rightarrow>
                validIndex particle1 excl0 \<and> validIndex particle2 excl0)
        \<and> (\<forall>a < length excl0. \<forall>b.
              b \<in> excl ! a \<longleftrightarrow> b \<in> excl0 ! a \<or> configuredExclusion force n a b))"

text \<open>The energy a call of \<open>execute\<close> returned, if it returned.\<close>

fun returnedEnergy :: "error + (real \<times> 'k \<times> 'c) \<Rightarrow> real option" where
  "returnedEnergy (Inl e) = None"
| "returnedEnergy (Inr (energy, k, context)) = Some energy"

text \<open>
  Modelled from the spec: the Coulomb energy of a pair of charges, which the concrete
  scenario of section 8 expects ("energy equals the Coulomb constant times -1 (charge
  product) divided by 1.0"). No pair evaluator is in the file, and the Coulomb constant
  is not either: it is the parameter \<open>coulombConstant\<close>.
\<close>

definition coulombEnergy :: "real \<Rightarrow> real \<Rightarrow> real \<Rightarrow> real \<Rightarrow> real" where
  "coulombEnergy coulombConstant q1 q2 r = coulombConstant * (q1 * q2) / r"

text \<open>The Euclidean distance of two positions.\<close>

fun distance :: "RealVec \<Rightarrow> RealVec \<Rightarrow> real" where
  "distance (x1, y1, z1) (x2, y2, z2) = sqrt ((x1 - x2)\<^sup>2 + (y1 - y2)\<^sup>2 + (z1 - z2)\<^sup>2)"

text \<open>
  The minimum-image wrap of a coordinate \<open>x\<close> on an axis of box edge \<open>L\<close>
  (specification, section 4.5).
\<close>

definition minimumImage :: "real \<Rightarrow> real \<Rightarrow> real" where
  "minimumImage x L = x - of_int \<lfloor>x / L + 0.5\<rfloor> * L"

text \<open>A box edge is too small for the cutoff (specification, sections 4.5 and 7).\<close>

definition boxTooSmall :: "RealVec \<Rightarrow> real \<Rightarrow> bool" where
  "boxTooSmall boxSize cutoff =
     (component boxSize 0 < 2 * cutoff \<or> component boxSize 1 < 2 * cutoff
      \<or> component boxSize 2 < 2 * cutoff)"

subsection \<open>Concrete configurations\<close>

text \<open>
  Collaborators for evaluating the kernel on concrete inputs: the float conversion is
  exact, and the neighbor list records the positions and the periodicity flag it was
  computed from.
\<close>

definition recordingCollaborators :: "(unit, (real list \<times> bool) option) collaborators" where
  "recordingCollaborators =
     \<lparr>toFloat = (\<lambda>x. x),
      computeNeighborList = (\<lambda>nl n pq excl box periodic cutoff. Some (pq, periodic)),
      calcEwaldParameters = (\<lambda>system force. (1, 2, 2, 2)),
      calcPMEParameters = (\<lambda>system force. (1, 8, 8, 8)),
      ljTailCoefficient = (\<lambda>system force. 1)\<rparr>"

definition newKernel :: "'nl \<Rightarrow> 'nl CpuCalcNonbondedForceKernel" where
  "newKernel nl =
     \<lparr>numParticles = 0, num14 = 0, exclusions = [], posq = [], nonbondedMethod = NoCutoff,
      nonbondedCutoff = 0, useSwitchingFunction = False, switchingDistance = 0,
      ewaldAlpha = 0, kmax = (0, 0, 0), gridSize = (0, 0, 0), rfDielectric = 0,
      dispersionCoefficient = 0, neighborList = nl\<rparr>"

text \<open>Two particles of charge +1 and -1, no cutoff, no exceptions.\<close>

definition twoParticleForce :: NonbondedForce where
  "twoParticleForce =
     \<lparr>particleParameters = [(1, 1, 0), (-1, 1, 0)], exceptionParameters = [],
      getNonbondedMethod = NoCutoff, getCutoffDistance = 1, getUseSwitchingFunction = False,
      getSwitchingDistance = 0, getReactionFieldDielectric = 1,
      getUseDispersionCorrection = False\<rparr>"

definition twoParticleKernel :: "(real list \<times> bool) option CpuCalcNonbondedForceKernel" where
  "twoParticleKernel =
     \<lparr>numParticles = 2, num14 = 0, exclusions = [{}, {}],
      posq = [0, 0, 0, 1, 0, 0, 0, -1], nonbondedMethod = NoCutoff,
      nonbondedCutoff = 1, useSwitchingFunction = False, switchingDistance = 0,
      ewaldAlpha = 0, kmax = (0, 0, 0), gridSize = (0, 0, 0), rfDielectric = 1,
      dispersionCoefficient = 0, neighborList = None\<rparr>"

text \<open>The two particles at distance 1 along the x axis.\<close>

definition twoParticleContext :: ContextImpl where
  "twoParticleContext =
     \<lparr>positions = [(0, 0, 0), (1, 0, 0)], velocities = [(0, 0, 0), (0, 0, 0)],
      forces = [(0, 0, 0), (0, 0, 0)], periodicBoxSize = (2, 2, 2)\<rparr>"

text \<open>
  Three particles, periodic cutoff 1, dispersion correction on, and two exceptions:
  the first is a scaled pair, the second has zero charge product and zero depth.
\<close>

definition threeParticleForce :: NonbondedForce where
  "threeParticleForce =
     \<lparr>particleParameters = [(1, 1, 0), (-1, 1, 0), (0, 1, 0)],
      exceptionParameters = [(0, 1, 1/2, 1, 1/5), (1, 2, 0, 1, 0)],
      getNonbondedMethod = CutoffPeriodic, getCutoffDistance = 1,
      getUseSwitchingFunction = False, getSwitchingDistance = 0,
      getReactionFieldDielectric = 1, getUseDispersionCorrection = True\<rparr>"

definition threeParticleKernel :: "(real list \<times> bool) option CpuCalcNonbondedForceKernel" where
  "threeParticleKernel =
     \<lparr>numParticles = 3, num14 = 1, exclusions = [{1}, {0, 2}, {1}],
      posq = [0, 0, 0, 1, 0, 0, 0, -1, 0, 0, 0, 0], nonbondedMethod = CutoffPeriodic,
      nonbondedCutoff = 1, useSwitchingFunction = False, switchingDistance = 0,
      ewaldAlpha = 0, kmax = (0, 0, 0), gridSize = (0, 0, 0), rfDielectric = 1,
      dispersionCoefficient = 1, neighborList = None\<rparr>"

text \<open>Three positions in a box of edge 1, which is less than twice the cutoff 1.\<close>

definition smallBoxContext :: ContextImpl where
  "smallBoxContext =
     \<lparr>positions = [(0, 0, 0), (1, 0, 0), (0, 1, 0)],
      velocities = [(0, 0, 0), (0, 0, 0), (0, 0, 0)],
      forces = [(5, 6, 7), (0, 0, 0), (0, 0, 0)], periodicBoxSize = (1, 1, 1)\<rparr>"

text \<open>One particle and an exception that pairs particle 0 with itself.\<close>

definition selfExceptionForce :: NonbondedForce where
  "selfExceptionForce =
     \<lparr>particleParameters = [(1, 1, 0)], exceptionParameters = [(0, 0, 1, 1, 1)],
      getNonbondedMethod = NoCutoff, getCutoffDistance = 1, getUseSwitchingFunction = False,
      getSwitchingDistance = 0, getReactionFieldDielectric = 1,
      getUseDispersionCorrection = False\<rparr>"

definition selfExceptionKernel :: "(real list \<times> bool) option CpuCalcNonbondedForceKernel" where
  "selfExceptionKernel =
     \<lparr>numParticles = 1, num14 = 1, exclusions = [{0}],
      posq = [0, 0, 0, 1], nonbondedMethod = NoCutoff,
      nonbondedCutoff = 1, useSwitchingFunction = False, switchingDistance = 0,
      ewaldAlpha = 0, kmax = (0, 0, 0), gridSize = (0, 0, 0), rfDielectric = 1,
      dispersionCoefficient = 0, neighborList = None\<rparr>"

text \<open>One particle under Ewald summation with cutoff 1, in a box of edge 4 at x = 3.\<close>

definition ewaldForce :: NonbondedForce where
  "ewaldForce =
     \<lparr>particleParameters = [(1, 1, 0)], exceptionParameters = [],
      getNonbondedMethod = Ewald, getCutoffDistance = 1, getUseSwitchingFunction = False,
      getSwitchingDistance = 0, getReactionFieldDielectric = 1,
      getUseDispersionCorrection = False\<rparr>"

definition ewaldKernel :: "(real list \<times> bool) option CpuCalcNonbondedForceKernel" where
  "ewaldKernel =
     \<lparr>numParticles = 1, num14 = 0, exclusions = [{}],
      posq = [0, 0, 0, 1], nonbondedMethod = Ewald,
      nonbondedCutoff = 1, useSwitchingFunction = False, switchingDistance = 0,
      ewaldAlpha = 1, kmax = (2, 2, 2), gridSize = (0, 0, 0), rfDielectric = 1,
      dispersionCoefficient = 0, neighborList = None\<rparr>"

definition ewaldContext :: ContextImpl where
  "ewaldContext =
     \<lparr>positions = [(3, 0, 0)], velocities = [(0, 0, 0)], forces = [(0, 0, 0)],
      periodicBoxSize = (4, 4, 4)\<rparr>"

section \<open>Properties\<close>

subsection \<open>The for loop\<close>

lemma andThen_Inr_iff:
  "andThen r f = Inr y \<longleftrightarrow> (\<exists>x. r = Inr x \<and> f x = Inr y)"
  by (cases r) auto

lemma forLoop_append:
  "forLoop (xs @ ys) body s = andThen (forLoop xs body s) (forLoop ys body)"
proof (induction xs arbitrary: s)
  case Nil
  show ?case by simp
next
  case (Cons i xs)
  show ?case by (cases "body i s") (simp_all add: Cons.IH)
qed

lemma forLoop_upt_Suc:
  "forLoop [0..<Suc n] body s = andThen (forLoop [0..<n] body s) (body n)"
proof -
  have "forLoop [n] body = body n"
  proof
    fix t show "forLoop [n] body t = body n t" by (cases "body n t") simp_all
  qed
  then show ?thesis by (simp add: forLoop_append)
qed

text \<open>An invariant of the loop body holds after a loop that returned.\<close>

lemma forLoop_invariant:
  assumes run: "forLoop [0..<n] body s = Inr s'"
    and init: "I 0 s"
    and step: "\<And>i t t'. i < n \<Longrightarrow> I i t \<Longrightarrow> body i t = Inr t' \<Longrightarrow> I (Suc i) t'"
  shows "I n s'"
  using run step
proof (induction n arbitrary: s')
  case 0
  with init show ?case by simp
next
  case (Suc n)
  from Suc.prems(1) obtain t where t: "forLoop [0..<n] body s = Inr t" and b: "body n t = Inr s'"
    unfolding forLoop_upt_Suc andThen_Inr_iff by blast
  have "I n t" using Suc.IH[OF t] Suc.prems(2) by simp
  then show ?case using Suc.prems(2)[of n t s'] b by simp
qed

text \<open>A loop returns when every iteration returns under the invariant.\<close>

lemma forLoop_total:
  assumes init: "I 0 s"
    and step: "\<And>i t. i < n \<Longrightarrow> I i t \<Longrightarrow> \<exists>t'. body i t = Inr t' \<and> I (Suc i) t'"
  shows "\<exists>s'. forLoop [0..<n] body s = Inr s' \<and> I n s'"
  using step
proof (induction n)
  case 0
  with init show ?case by simp
next
  case (Suc n)
  then obtain t where t: "forLoop [0..<n] body s = Inr t" and It: "I n t" by auto
  from Suc.prems[of n t] It obtain t' where "body n t = Inr t'" "I (Suc n) t'" by auto
  then show ?case using t unfolding forLoop_upt_Suc by simp
qed

subsection \<open>The loops of initialize\<close>

lemma configuredExclusion_0: "\<not> configuredExclusion force 0 a b"
  by (simp add: configuredExclusion_def)

lemma configuredExclusion_Suc:
  "exceptionParameters force ! n = (p1, p2, c, sg, ep) \<Longrightarrow>
   configuredExclusion force (Suc n) a b \<longleftrightarrow>
     configuredExclusion force n a b \<or> (p1 = int a \<and> p2 = b) \<or> (p2 = int a \<and> p1 = b)"
  unfolding configuredExclusion_def less_Suc_eq by auto

lemma exceptionBody_step:
  assumes inv: "exceptionInv force excl0 n t" and body: "exceptionBody force n t = Inr t'"
  shows "exceptionInv force excl0 (Suc n) t'"
proof -
  obtain excl nb14s where t: "t = (excl, nb14s)" by (cases t)
  obtain p1 p2 c sg ep where e: "exceptionParameters force ! n = (p1, p2, c, sg, ep)"
    by (cases "exceptionParameters force ! n")
  from inv t have len: "length excl = length excl0"
    and nb: "nb14s = filter (\<lambda>i. isScaledPair (exceptionParameters force ! i)) [0..<n]"
    and va: "\<forall>i < n. case exceptionParameters force ! i of
              (particle1, particle2, chargeProd, sigma, epsilon) \<Rightarrow>
                validIndex particle1 excl0 \<and> validIndex particle2 excl0"
    and ex: "\<And>a b. a < length excl0 \<Longrightarrow>
               b \<in> excl ! a \<longleftrightarrow> b \<in> excl0 ! a \<or> configuredExclusion force n a b"
    by (simp_all add: exceptionInv_def)
  from body t e have v1: "validIndex p1 excl" and v2: "validIndex p2 excl"
    by (auto simp: exceptionBody_def validIndex_def Let_def split: if_splits)
  define excl' where "excl' = (excl[nat p1 := insert p2 (excl ! nat p1)])
     [nat p2 := insert p1 ((excl[nat p1 := insert p2 (excl ! nat p1)]) ! nat p2)]"
  from body t e v1 v2 have t': "t' = (excl', if c \<noteq> 0 \<or> ep \<noteq> 0 then nb14s @ [n] else nb14s)"
    by (auto simp: exceptionBody_def validIndex_def Let_def excl'_def split: if_splits)
  have l': "length excl' = length excl0" using len by (simp add: excl'_def)
  have n': "(if c \<noteq> 0 \<or> ep \<noteq> 0 then nb14s @ [n] else nb14s)
            = filter (\<lambda>i. isScaledPair (exceptionParameters force ! i)) [0..<Suc n]"
    using nb e by simp
  have v': "\<forall>i < Suc n. case exceptionParameters force ! i of
              (particle1, particle2, chargeProd, sigma, epsilon) \<Rightarrow>
                validIndex particle1 excl0 \<and> validIndex particle2 excl0"
    using va v1 v2 e len unfolding less_Suc_eq by (auto simp: validIndex_def)
  have x': "b \<in> excl' ! a \<longleftrightarrow> b \<in> excl0 ! a \<or> configuredExclusion force (Suc n) a b"
    if a: "a < length excl0" for a b
  proof -
    define i1 i2 where "i1 = nat p1" and "i2 = nat p2"
    have i: "p1 = int i1" "p2 = int i2" "i1 < length excl" "i2 < length excl"
      using v1 v2 unfolding validIndex_def i1_def i2_def by (simp_all add: nat_less_iff)
    have "b \<in> excl' ! a \<longleftrightarrow> b \<in> excl ! a \<or> (p1 = int a \<and> p2 = b) \<or> (p2 = int a \<and> p1 = b)"
      using a len i unfolding excl'_def
      by (auto simp: nth_list_update split: if_splits)
    then show ?thesis using ex[OF a] configuredExclusion_Suc[OF e] by blast
  qed
  show ?thesis unfolding t' exceptionInv_def using l' n' v' x' by simp
qed

lemma exceptionLoop_result:
  assumes "forLoop [0..<n] (exceptionBody force) (excl0, []) = Inr s"
  shows "exceptionInv force excl0 n s"
proof (rule forLoop_invariant[OF assms, where I = "exceptionInv force excl0"])
  show "exceptionInv force excl0 0 (excl0, [])"
    by (simp add: exceptionInv_def configuredExclusion_0)
next
  fix i t t'
  assume "exceptionInv force excl0 i t" "exceptionBody force i t = Inr t'"
  then show "exceptionInv force excl0 (Suc i) t'" by (rule exceptionBody_step)
qed

text \<open>
  The charge loop writes slot \<open>4 * i + 3\<close> of every particle and nothing else.
\<close>

lemma chargeLoop_result:
  assumes "forLoop [0..<n] (chargeBody E force) pq0 = Inr pq"
  shows "length pq = length pq0
         \<and> (\<forall>i < n. pq ! (4 * i + 3) = toFloat E (fst (particleParameters force ! i)))
         \<and> (\<forall>m < length pq0. m mod 4 \<noteq> 3 \<longrightarrow> pq ! m = pq0 ! m)"
proof (rule forLoop_invariant[OF assms, where I = "\<lambda>n pq. length pq = length pq0
         \<and> (\<forall>i < n. pq ! (4 * i + 3) = toFloat E (fst (particleParameters force ! i)))
         \<and> (\<forall>m < length pq0. m mod 4 \<noteq> 3 \<longrightarrow> pq ! m = pq0 ! m)"])
  show "length pq0 = length pq0
     \<and> (\<forall>i<0. pq0 ! (4 * i + 3) = toFloat E (fst (particleParameters force ! i)))
     \<and> (\<forall>m < length pq0. m mod 4 \<noteq> 3 \<longrightarrow> pq0 ! m = pq0 ! m)" by simp
next
  fix i t t'
  assume inv: "length t = length pq0
     \<and> (\<forall>i'<i. t ! (4 * i' + 3) = toFloat E (fst (particleParameters force ! i')))
     \<and> (\<forall>m < length pq0. m mod 4 \<noteq> 3 \<longrightarrow> t ! m = pq0 ! m)"
    and body: "chargeBody E force i t = Inr t'"
  obtain ch r d where p: "particleParameters force ! i = (ch, r, d)"
    by (cases "particleParameters force ! i")
  from body p have lt: "4 * i + 3 < length t" and t': "t' = t[4 * i + 3 := toFloat E ch]"
    by (auto simp: chargeBody_def store_def split: if_splits)
  have "(4 * i + 3) mod 4 = 3" by presburger
  then show "length t' = length pq0
     \<and> (\<forall>i'<Suc i. t' ! (4 * i' + 3) = toFloat E (fst (particleParameters force ! i')))
     \<and> (\<forall>m < length pq0. m mod 4 \<noteq> 3 \<longrightarrow> t' ! m = pq0 ! m)"
    using inv lt p unfolding t' less_Suc_eq by (auto simp: nth_list_update)
qed

subsection \<open>What initialize stores\<close>

lemma length_resize: "length (resize n d v) = n"
  by (simp add: resize_def)

lemma initialize_Inr:
  assumes "initialize E k0 system force = Inr k"
  obtains excl nb14s pq where
    "forLoop [0..<getNumExceptions force] (exceptionBody force)
       (resize (getNumParticles force) {} (exclusions k0), []) = Inr (excl, nb14s)"
    "forLoop [0..<getNumParticles force] (chargeBody E force)
       (resize (4 * getNumParticles force) 0 (posq k0)) = Inr pq"
    "numParticles k = getNumParticles force"
    "num14 k = length nb14s"
    "exclusions k = excl"
    "posq k = pq"
    "nonbondedMethod k = getNonbondedMethod force"
    "nonbondedCutoff k = getCutoffDistance force"
    "dispersionCoefficient k =
       (if getUseDispersionCorrection force then calcDispersionCorrection E system force else 0)"
    "neighborList k = neighborList k0"
proof -
  from assms obtain s where
    s: "forLoop [0..<getNumExceptions force] (exceptionBody force)
       (resize (getNumParticles force) {} (exclusions k0), []) = Inr s"
    by (auto simp: initialize_def Let_def andThen_Inr_iff)
  obtain excl nb14s where sp: "s = (excl, nb14s)" by (cases s)
  from assms s sp obtain pq where
    pq: "forLoop [0..<getNumParticles force] (chargeBody E force)
       (resize (4 * getNumParticles force) 0 (posq k0)) = Inr pq"
    by (auto simp: initialize_def Let_def andThen_Inr_iff)
  from assms s sp pq have
    "numParticles k = getNumParticles force \<and> num14 k = length nb14s \<and> exclusions k = excl
     \<and> posq k = pq \<and> nonbondedMethod k = getNonbondedMethod force
     \<and> nonbondedCutoff k = getCutoffDistance force
     \<and> dispersionCoefficient k =
       (if getUseDispersionCorrection force then calcDispersionCorrection E system force else 0)
     \<and> neighborList k = neighborList k0"
    by (auto simp: initialize_def Let_def split: prod.splits if_splits)
  with s sp pq that show ?thesis by blast
qed

lemma initialize_posq_length:
  assumes "initialize E k0 system force = Inr k"
  shows "length (posq k) = 4 * numParticles k"
proof -
  from assms obtain pq where
    "forLoop [0..<getNumParticles force] (chargeBody E force)
       (resize (4 * getNumParticles force) 0 (posq k0)) = Inr pq"
    "numParticles k = getNumParticles force" "posq k = pq"
    by (rule initialize_Inr)
  then show ?thesis using chargeLoop_result[of "getNumParticles force" E force]
    by (simp add: length_resize)
qed


lemma initialize_exceptionInv:
  assumes "initialize E k0 system force = Inr k"
  shows "\<exists>nb14s.
    forLoop [0..<getNumExceptions force] (exceptionBody force)
       (resize (getNumParticles force) {} (exclusions k0), []) = Inr (exclusions k, nb14s)
    \<and> num14 k = length nb14s
    \<and> numParticles k = getNumParticles force
    \<and> exceptionInv force (resize (getNumParticles force) {} (exclusions k0))
         (getNumExceptions force) (exclusions k, nb14s)"
proof -
  let ?e0 = "resize (getNumParticles force) {} (exclusions k0)"
  from assms obtain excl nb14s where
    run: "forLoop [0..<getNumExceptions force] (exceptionBody force) (?e0, []) = Inr (excl, nb14s)"
    and f: "numParticles k = getNumParticles force" "num14 k = length nb14s" "exclusions k = excl"
    by (rule initialize_Inr)
  from exceptionLoop_result[OF run] run f show ?thesis by auto
qed

lemma initialize_exclusions:
  assumes "initialize E k0 system force = Inr k"
  shows "length (exclusions k) = numParticles k"
    and "numParticles k = getNumParticles force"
    and "i < getNumExceptions force \<Longrightarrow>
        validIndex (fst (exceptionParameters force ! i)) (exclusions k)
        \<and> validIndex (fst (snd (exceptionParameters force ! i))) (exclusions k)"
    and "a < numParticles k \<Longrightarrow>
        b \<in> exclusions k ! a \<longleftrightarrow>
          b \<in> resize (getNumParticles force) {} (exclusions k0) ! a
          \<or> configuredExclusion force (getNumExceptions force) a b"
proof -
  let ?e0 = "resize (getNumParticles force) {} (exclusions k0)"
  from initialize_exceptionInv[OF assms] obtain nb14s where
    f: "numParticles k = getNumParticles force"
    and inv: "exceptionInv force ?e0 (getNumExceptions force) (exclusions k, nb14s)"
    by blast
  show l: "length (exclusions k) = numParticles k"
    using inv f by (simp add: exceptionInv_def length_resize)
  show "numParticles k = getNumParticles force" by (rule f)
  show "validIndex (fst (exceptionParameters force ! i)) (exclusions k)
        \<and> validIndex (fst (snd (exceptionParameters force ! i))) (exclusions k)"
    if "i < getNumExceptions force"
  proof -
    from inv that have "case exceptionParameters force ! i of
              (particle1, particle2, chargeProd, sigma, epsilon) \<Rightarrow>
                validIndex particle1 ?e0 \<and> validIndex particle2 ?e0"
      by (simp add: exceptionInv_def)
    then show ?thesis using l f
      by (cases "exceptionParameters force ! i") (simp add: validIndex_def length_resize)
  qed
  show "b \<in> exclusions k ! a \<longleftrightarrow> b \<in> ?e0 ! a
          \<or> configuredExclusion force (getNumExceptions force) a b"
    if "a < numParticles k"
    using inv that f by (simp add: exceptionInv_def length_resize)
qed

text \<open>Every configured exception is in the exclusion sets of both its particles.\<close>

lemma initialize_excludes_exceptions:
  assumes init: "initialize E k0 system force = Inr k"
    and mem: "(particle1, particle2, chargeProd, sigma, epsilon) \<in> set (exceptionParameters force)"
  shows "particle2 \<in> exclusions k ! nat particle1 \<and> particle1 \<in> exclusions k ! nat particle2"
proof -
  from mem obtain i where i: "i < getNumExceptions force"
    and e: "exceptionParameters force ! i = (particle1, particle2, chargeProd, sigma, epsilon)"
    by (auto simp: in_set_conv_nth getNumExceptions_def)
  note l = initialize_exclusions(1)[OF init]
  note v = initialize_exclusions(3)[OF init]
  note x = initialize_exclusions(4)[OF init]
  from v[OF i] e l have r: "0 \<le> particle1" "nat particle1 < numParticles k"
     "0 \<le> particle2" "nat particle2 < numParticles k"
    by (simp_all add: validIndex_def nat_less_iff)
  have c1: "configuredExclusion force (getNumExceptions force) (nat particle1) particle2"
    unfolding configuredExclusion_def using i e r by (intro exI[of _ i]) simp
  have c2: "configuredExclusion force (getNumExceptions force) (nat particle2) particle1"
    unfolding configuredExclusion_def using i e r by (intro exI[of _ i]) simp
  show ?thesis using x[OF r(2)] x[OF r(4)] c1 c2 by blast
qed

lemma resize_constructed:
  "constructed k0 \<Longrightarrow> a < n \<Longrightarrow> resize n {} (exclusions k0) ! a = {}"
  by (simp add: constructed_def resize_def)

text \<open>On a newly constructed kernel the exclusion sets hold the configured pairs only.\<close>

lemma initialize_exclusions_constructed:
  assumes "constructed k0" "initialize E k0 system force = Inr k" "a < numParticles k"
  shows "b \<in> exclusions k ! a \<longleftrightarrow> configuredExclusion force (getNumExceptions force) a b"
proof -
  note n = initialize_exclusions(2)[OF assms(2)]
  note x = initialize_exclusions(4)[OF assms(2)]
  show ?thesis using x[OF assms(3)] resize_constructed[OF assms(1), of a "getNumParticles force"] assms(3) n
    by simp
qed

lemma configuredExclusion_iff:
  "configuredExclusion force n a b \<longleftrightarrow>
     (\<exists>i < n. (fst (exceptionParameters force ! i) = int a
                \<and> fst (snd (exceptionParameters force ! i)) = b)
              \<or> (fst (snd (exceptionParameters force ! i)) = int a
                \<and> fst (exceptionParameters force ! i) = b))"
  by (simp add: configuredExclusion_def case_prod_beta)

lemma configuredExclusion_sym:
  "configuredExclusion force n a (int b) \<longleftrightarrow> configuredExclusion force n b (int a)"
  unfolding configuredExclusion_iff by auto

lemma configuredExclusion_self:
  "configuredExclusion force (getNumExceptions force) a (int a) \<longleftrightarrow>
     (\<exists>(particle1, particle2, chargeProd, sigma, epsilon) \<in> set (exceptionParameters force).
        particle1 = int a \<and> particle2 = int a)"
proof -
  have "configuredExclusion force (getNumExceptions force) a (int a) \<longleftrightarrow>
     (\<exists>i < length (exceptionParameters force).
        fst (exceptionParameters force ! i) = int a
        \<and> fst (snd (exceptionParameters force ! i)) = int a)"
    unfolding configuredExclusion_iff getNumExceptions_def by blast
  also have "\<dots> \<longleftrightarrow> (\<exists>e \<in> set (exceptionParameters force). fst e = int a \<and> fst (snd e) = int a)"
    by (metis in_set_conv_nth)
  finally show ?thesis by (simp add: case_prod_beta)
qed

subsection \<open>The conversion loops of execute\<close>

lemma upt_0_3: "[0..<3] = [0, 1, 2]"
  by (simp add: upt_rec numeral_3_eq_3)

lemma wrapParticle:
  assumes "i < length posData" "4 * i + 3 < length pq"
  shows "forLoop [0..<3] (wrapBody E posData boxSize i) pq =
         Inr (pq[4 * i := toFloat E (minimumImage (component (posData ! i) 0) (component boxSize 0)),
                 4 * i + 1 := toFloat E (minimumImage (component (posData ! i) 1) (component boxSize 1)),
                 4 * i + 2 := toFloat E (minimumImage (component (posData ! i) 2) (component boxSize 2))])"
  using assms
  by (simp add: upt_0_3 wrapBody_def fetch_def store_def minimumImage_def Let_def)

lemma copyParticle:
  assumes "i < length posData" "4 * i + 3 < length pq"
  shows "copyBody E posData i pq =
         Inr (pq[4 * i := toFloat E (component (posData ! i) 0),
                 4 * i + 1 := toFloat E (component (posData ! i) 1),
                 4 * i + 2 := toFloat E (component (posData ! i) 2)])"
  using assms
  by (simp add: copyBody_def fetch_def store_def)

lemma convertLoop:
  assumes len: "length pq0 = 4 * n"
    and body: "\<And>i pq. i < n \<Longrightarrow> length pq = length pq0 \<Longrightarrow>
                 body i pq = Inr (pq[4 * i := v i 0, 4 * i + 1 := v i 1, 4 * i + 2 := v i 2])"
  shows "\<exists>pq. forLoop [0..<n] body pq0 = Inr pq \<and> length pq = length pq0
           \<and> (\<forall>i < n. \<forall>j < 3. pq ! (4 * i + j) = v i j)
           \<and> (\<forall>i < n. pq ! (4 * i + 3) = pq0 ! (4 * i + 3))"
proof -
  define I where "I m pq \<longleftrightarrow> length pq = length pq0
           \<and> (\<forall>i < m. \<forall>j < 3. pq ! (4 * i + j) = v i j)
           \<and> (\<forall>i < n. pq ! (4 * i + 3) = pq0 ! (4 * i + 3))" for m :: nat and pq :: "'a list"
  have init: "I 0 pq0" by (simp add: I_def)
  have step: "\<exists>t'. body i t = Inr t' \<and> I (Suc i) t'" if i: "i < n" and inv: "I i t" for i t
  proof -
    let ?t' = "t[4 * i := v i 0, 4 * i + 1 := v i 1, 4 * i + 2 := v i 2]"
    from inv have lt: "length t = length pq0" by (simp add: I_def)
    have b: "body i t = Inr ?t'" using body[OF i lt] .
    have l': "length ?t' = length pq0" using lt by simp
    have old: "?t' ! (4 * i' + j) = t ! (4 * i' + j)" if "i' \<noteq> i \<or> j = 3" "j < 4" for i' j
    proof -
      have "4 * i' + j \<noteq> 4 * i" "4 * i' + j \<noteq> 4 * i + 1" "4 * i' + j \<noteq> 4 * i + 2"
        using that by presburger+
      then show ?thesis by simp
    qed
    have new: "?t' ! (4 * i + j) = v i j" if "j < 3" for j
    proof -
      from that have "j = 0 \<or> j = 1 \<or> j = 2" by presburger
      moreover have "4 * i + 2 < length t" using i lt len by simp
      ultimately show ?thesis by auto
    qed
    have p1: "\<forall>i' < Suc i. \<forall>j < 3. ?t' ! (4 * i' + j) = v i' j"
    proof (intro allI impI)
      fix i' j :: nat assume "i' < Suc i" "j < 3"
      show "?t' ! (4 * i' + j) = v i' j"
      proof (cases "i' = i")
        case True
        then show ?thesis using new[OF \<open>j < 3\<close>] by simp
      next
        case False
        with \<open>i' < Suc i\<close> have "i' < i" by simp
        with inv \<open>j < 3\<close> have "t ! (4 * i' + j) = v i' j" by (simp add: I_def)
        then show ?thesis using old[of i' j] False \<open>j < 3\<close> by simp
      qed
    qed
    have p2: "\<forall>i' < n. ?t' ! (4 * i' + 3) = pq0 ! (4 * i' + 3)"
    proof (intro allI impI)
      fix i' assume "i' < n"
      with inv have "t ! (4 * i' + 3) = pq0 ! (4 * i' + 3)" by (simp add: I_def)
      then show "?t' ! (4 * i' + 3) = pq0 ! (4 * i' + 3)" using old[of i' 3] by simp
    qed
    from l' p1 p2 have "I (Suc i) ?t'" unfolding I_def by blast
    with b show ?thesis by blast
  qed
  from forLoop_total[of I pq0 n body, OF init step]
  show ?thesis unfolding I_def by blast
qed

subsection \<open>What execute returns\<close>

lemma execute_result:
  assumes len: "length (posq k) = 4 * numParticles k"
    and pos: "numParticles k \<le> length (positions context)"
  shows "\<exists>pq. execute E k context includeForces includeEnergy includeDirect includeReciprocal =
           Inr (0, k\<lparr>posq := pq,
                     neighborList := computeNeighborList E (neighborList k) (numParticles k) pq
                       (exclusions k)
                       (toFloat E (component (periodicBoxSize context) 0),
                        toFloat E (component (periodicBoxSize context) 1),
                        toFloat E (component (periodicBoxSize context) 2))
                       (isPeriodicMethod (nonbondedMethod k)) (nonbondedCutoff k)\<rparr>, context)
         \<and> length pq = length (posq k)
         \<and> (\<forall>i < numParticles k. pq ! (4 * i + 3) = posq k ! (4 * i + 3))
         \<and> (\<forall>i < numParticles k. \<forall>j < 3. pq ! (4 * i + j) =
               toFloat E (if nonbondedMethod k = CutoffPeriodic
                          then minimumImage (component (positions context ! i) j)
                                 (component (periodicBoxSize context) j)
                          else component (positions context ! i) j))"
proof -
  let ?n = "numParticles k" and ?P = "positions context" and ?B = "periodicBoxSize context"
  let ?v = "\<lambda>i j. toFloat E (if nonbondedMethod k = CutoffPeriodic
                          then minimumImage (component (?P ! i) j) (component ?B j)
                          else component (?P ! i) j)"
  let ?loop = "if nonbondedMethod k = CutoffPeriodic
            then forLoop [0..<?n] (\<lambda>i. forLoop [0..<3] (wrapBody E ?P ?B i)) (posq k)
            else forLoop [0..<?n] (copyBody E ?P) (posq k)"
  have "\<exists>pq. ?loop = Inr pq \<and> length pq = length (posq k)
           \<and> (\<forall>i < ?n. \<forall>j < 3. pq ! (4 * i + j) = ?v i j)
           \<and> (\<forall>i < ?n. pq ! (4 * i + 3) = posq k ! (4 * i + 3))"
  proof (cases "nonbondedMethod k = CutoffPeriodic")
    case True
    have "\<exists>pq. forLoop [0..<?n] (\<lambda>i. forLoop [0..<3] (wrapBody E ?P ?B i)) (posq k) = Inr pq
           \<and> length pq = length (posq k)
           \<and> (\<forall>i < ?n. \<forall>j < 3. pq ! (4 * i + j) = ?v i j)
           \<and> (\<forall>i < ?n. pq ! (4 * i + 3) = posq k ! (4 * i + 3))"
    proof (rule convertLoop[OF len])
      fix i and pq :: "real list" assume "i < ?n" "length pq = length (posq k)"
      with len pos have "i < length ?P" "4 * i + 3 < length pq" by simp_all
      then show "forLoop [0..<3] (wrapBody E ?P ?B i) pq =
         Inr (pq[4 * i := ?v i 0, 4 * i + 1 := ?v i 1, 4 * i + 2 := ?v i 2])"
        using True by (simp add: wrapParticle)
    qed
    with True show ?thesis by simp
  next
    case False
    have "\<exists>pq. forLoop [0..<?n] (copyBody E ?P) (posq k) = Inr pq
           \<and> length pq = length (posq k)
           \<and> (\<forall>i < ?n. \<forall>j < 3. pq ! (4 * i + j) = ?v i j)
           \<and> (\<forall>i < ?n. pq ! (4 * i + 3) = posq k ! (4 * i + 3))"
    proof (rule convertLoop[OF len])
      fix i and pq :: "real list" assume "i < ?n" "length pq = length (posq k)"
      with len pos have "i < length ?P" "4 * i + 3 < length pq" by simp_all
      then show "copyBody E ?P i pq =
         Inr (pq[4 * i := ?v i 0, 4 * i + 1 := ?v i 1, 4 * i + 2 := ?v i 2])"
        using False by (simp add: copyParticle)
    qed
    with False show ?thesis by simp
  qed
  then obtain pq where run: "?loop = Inr pq" and rest: "length pq = length (posq k)"
           "\<forall>i < ?n. \<forall>j < 3. pq ! (4 * i + j) = ?v i j"
           "\<forall>i < ?n. pq ! (4 * i + 3) = posq k ! (4 * i + 3)" by blast
  have "execute E k context includeForces includeEnergy includeDirect includeReciprocal =
           Inr (0, k\<lparr>posq := pq,
                     neighborList := computeNeighborList E (neighborList k) ?n pq
                       (exclusions k)
                       (toFloat E (component ?B 0), toFloat E (component ?B 1),
                        toFloat E (component ?B 2))
                       (isPeriodicMethod (nonbondedMethod k)) (nonbondedCutoff k)\<rparr>, context)"
    using run
    by (simp add: execute_def Let_def extractPositions_def extractBoxSize_def isPeriodicMethod_def)
  with rest show ?thesis by blast
qed

text \<open>Whatever the kernel and the context, a call that returns returns 0 and the context it got.\<close>

lemma execute_returns:
  assumes "execute E k context includeForces includeEnergy includeDirect includeReciprocal = Inr (energy, k', context')"
  shows "energy = 0 \<and> context' = context \<and> k' = k\<lparr>posq := posq k', neighborList := neighborList k'\<rparr>"
  using assms by (auto simp: execute_def Let_def andThen_Inr_iff)

subsection \<open>The concrete configurations, evaluated\<close>

lemmas eval_defs = initialize_def exceptionBody_def chargeBody_def store_def fetch_def
  resize_def validIndex_def getNumParticles_def getNumExceptions_def
  calcDispersionCorrection_def isPeriodicMethod_def recordingCollaborators_def newKernel_def
  upt_rec [of 0] upt_rec [of 1] upt_rec [of 2] upt_rec [of 3] upt_rec [of "Suc 0"]
  upt_rec [of "Suc (Suc 0)"] Let_def

lemma initialize_twoParticle:
  "initialize recordingCollaborators (newKernel None) () twoParticleForce = Inr twoParticleKernel"
  by (simp add: eval_defs twoParticleForce_def twoParticleKernel_def eval_nat_numeral)

lemma initialize_threeParticle:
  "initialize recordingCollaborators (newKernel None) () threeParticleForce = Inr threeParticleKernel"
  by (simp add: eval_defs threeParticleForce_def threeParticleKernel_def insert_commute eval_nat_numeral)

lemma initialize_selfException:
  "initialize recordingCollaborators (newKernel None) () selfExceptionForce = Inr selfExceptionKernel"
  by (simp add: eval_defs selfExceptionForce_def selfExceptionKernel_def eval_nat_numeral)

lemma initialize_ewald:
  "initialize recordingCollaborators (newKernel None) () ewaldForce = Inr ewaldKernel"
  by (simp add: eval_defs ewaldForce_def ewaldKernel_def eval_nat_numeral)

lemmas exec_defs = execute_def wrapBody_def copyBody_def store_def fetch_def
  extractPositions_def extractForces_def extractBoxSize_def recordingCollaborators_def
  upt_rec [of 0] upt_rec [of 1] upt_rec [of 2] upt_rec [of 3] upt_rec [of "Suc 0"]
  upt_rec [of "Suc (Suc 0)"] Let_def


lemma execute_twoParticle:
  "execute recordingCollaborators twoParticleKernel twoParticleContext includeForces includeEnergy includeDirect includeReciprocal
   = Inr (0, twoParticleKernel\<lparr>posq := [0, 0, 0, 1, 1, 0, 0, -1], neighborList := Some ([0, 0, 0, 1, 1, 0, 0, -1], False)\<rparr>, twoParticleContext)"
  by (simp add: exec_defs twoParticleKernel_def twoParticleContext_def eval_nat_numeral)

lemma execute_smallBox:
  "execute recordingCollaborators threeParticleKernel smallBoxContext includeForces includeEnergy includeDirect includeReciprocal
   = Inr (0, threeParticleKernel\<lparr>posq := [0, 0, 0, 1, 0, 0, 0, -1, 0, 0, 0, 0], neighborList := Some ([0, 0, 0, 1, 0, 0, 0, -1, 0, 0, 0, 0], True)\<rparr>, smallBoxContext)"
  by (simp add: exec_defs threeParticleKernel_def smallBoxContext_def eval_nat_numeral)

lemma execute_ewald:
  "execute recordingCollaborators ewaldKernel ewaldContext includeForces includeEnergy includeDirect includeReciprocal
   = Inr (0, ewaldKernel\<lparr>posq := [3, 0, 0, 1], neighborList := Some ([3, 0, 0, 1], True)\<rparr>, ewaldContext)"
  by (simp add: exec_defs ewaldKernel_def ewaldContext_def eval_nat_numeral)

lemma minimumImage_3_4: "minimumImage 3 4 = -1"
  by (simp add: minimumImage_def)

text \<open>Every member of an exclusion set of a newly initialized kernel is a particle index.\<close>

lemma initialize_exclusions_valid:
  assumes "constructed k0" "initialize E k0 system force = Inr k" "a < numParticles k"
    "b \<in> exclusions k ! a"
  shows "0 \<le> b \<and> b < int (numParticles k)"
proof -
  from assms have "configuredExclusion force (getNumExceptions force) a b"
    by (simp add: initialize_exclusions_constructed)
  then obtain i where i: "i < getNumExceptions force"
    and b: "b = fst (exceptionParameters force ! i) \<or> b = fst (snd (exceptionParameters force ! i))"
    unfolding configuredExclusion_iff by blast
  from initialize_exclusions(3)[OF assms(2) i] initialize_exclusions(1)[OF assms(2)] b
  show ?thesis by (auto simp: validIndex_def)
qed

section \<open>The claims\<close>

text \<open>
  C10. \<open>copyParametersToContext\<close> leaves every field of the kernel unchanged and never
  raises an error, for every configuration: it returns the kernel it was given.
\<close>

theorem copyParametersToContext_unchanged:
  "copyParametersToContext k context force = Inr k"
  by (simp add: copyParametersToContext_def)

text \<open>
  C8. On a kernel that \<open>initialize\<close> returned for a configuration, updating the parameters
  with that configuration and then calling \<open>execute\<close> gives the same result (energy,
  kernel fields, context with its force buffer) as calling \<open>execute\<close> alone, for every
  context and every combination of the flags.
\<close>

theorem update_then_execute_same:
  assumes "initialize E k0 system force = Inr k"
  shows "andThen (copyParametersToContext k context force)
           (\<lambda>k'. execute E k' context includeForces includeEnergy includeDirect includeReciprocal)
         = execute E k context includeForces includeEnergy includeDirect includeReciprocal"
  by (simp add: copyParametersToContext_def)

theorem update_then_execute_same_witness:
  "initialize recordingCollaborators (newKernel None) () threeParticleForce = Inr threeParticleKernel
   \<and> andThen (copyParametersToContext threeParticleKernel smallBoxContext threeParticleForce)
           (\<lambda>k'. execute recordingCollaborators k' smallBoxContext True True True True)
         = execute recordingCollaborators threeParticleKernel smallBoxContext True True True True"
  using initialize_threeParticle update_then_execute_same [OF initialize_threeParticle]
  by simp

text \<open>
  C4 (as stated, refuted). The kernel initialized for two particles and no exception is
  updated with a configuration of three particles and one scaled pair: the call returns
  the kernel, it does not fail with \<open>TopologyChanged\<close>.
\<close>

theorem copyParametersToContext_topology_counterexample:
  "initialize recordingCollaborators (newKernel None) () twoParticleForce = Inr twoParticleKernel
   \<and> getNumParticles threeParticleForce \<noteq> numParticles twoParticleKernel
   \<and> length (filter isScaledPair (exceptionParameters threeParticleForce)) \<noteq> num14 twoParticleKernel
   \<and> copyParametersToContext twoParticleKernel twoParticleContext threeParticleForce
       \<noteq> Inl TopologyChanged"
  using initialize_twoParticle
  by (simp add: copyParametersToContext_def getNumParticles_def threeParticleForce_def
      twoParticleKernel_def)

text \<open>
  C4 (amended). \<open>copyParametersToContext\<close> never fails with \<open>TopologyChanged\<close>: it
  succeeds for every kernel and every configuration, whether or not the particle count
  or the number of scaled pairs differs from the ones recorded at \<open>initialize\<close>.
\<close>

theorem copyParametersToContext_succeeds:
  "copyParametersToContext k context force \<noteq> Inl TopologyChanged
   \<and> (\<exists>k'. copyParametersToContext k context force = Inr k')"
  by (simp add: copyParametersToContext_def)

text \<open>
  C5. After \<open>initialize\<close> the stored dispersion coefficient is the analytic tail
  coefficient when the dispersion flag is set and the method is periodic, and zero when
  the flag is not set or the method is not periodic.
\<close>

theorem initialize_dispersionCoefficient:
  assumes "initialize E k0 system force = Inr k"
  shows "dispersionCoefficient k =
           (if getUseDispersionCorrection force \<and> isPeriodicMethod (getNonbondedMethod force)
            then ljTailCoefficient E system force else 0)"
proof -
  from assms have "dispersionCoefficient k =
       (if getUseDispersionCorrection force then calcDispersionCorrection E system force else 0)"
    by (rule initialize_Inr)
  then show ?thesis by (simp add: calcDispersionCorrection_def)
qed

theorem initialize_dispersionCoefficient_witness:
  "initialize recordingCollaborators (newKernel None) () threeParticleForce = Inr threeParticleKernel
   \<and> dispersionCoefficient threeParticleKernel = 1
   \<and> getUseDispersionCorrection threeParticleForce
   \<and> isPeriodicMethod (getNonbondedMethod threeParticleForce)
   \<and> ljTailCoefficient recordingCollaborators () threeParticleForce = 1"
  using initialize_threeParticle initialize_dispersionCoefficient [OF initialize_threeParticle]
  by (simp add: threeParticleForce_def isPeriodicMethod_def recordingCollaborators_def)

text \<open>
  C9. For a kernel that \<open>initialize\<close> returned, a context that holds a position for each
  of its particles, and every combination of the four flags, \<open>execute\<close> returns 0 and
  the context as it was, so the force buffer is not written. Of the kernel it changes
  \<open>posq\<close> and the neighbor list only. The new \<open>posq\<close> has the old size and the old
  charge slots, and its three position slots of every particle are rebuilt from the
  positions of the context: the float conversion of the coordinate, wrapped by the
  minimum image when the method is the periodic cutoff. The new neighbor list is what
  \<open>computeNeighborList\<close> returns for the new \<open>posq\<close>, the exclusions, the converted box,
  the periodicity flag and the cutoff.
\<close>

theorem execute_returns_zero:
  assumes "initialize E k0 system force = Inr k"
    and "numParticles k \<le> length (positions context)"
  shows "\<exists>pq.
           execute E k context includeForces includeEnergy includeDirect includeReciprocal =
             Inr (0, k\<lparr>posq := pq,
                       neighborList := computeNeighborList E (neighborList k) (numParticles k) pq
                         (exclusions k)
                         (toFloat E (component (periodicBoxSize context) 0),
                          toFloat E (component (periodicBoxSize context) 1),
                          toFloat E (component (periodicBoxSize context) 2))
                         (isPeriodicMethod (nonbondedMethod k)) (nonbondedCutoff k)\<rparr>, context)
           \<and> length pq = length (posq k)
           \<and> (\<forall>i < numParticles k. pq ! (4 * i + 3) = posq k ! (4 * i + 3))
           \<and> (\<forall>i < numParticles k. \<forall>j < 3. pq ! (4 * i + j) =
                 toFloat E (if nonbondedMethod k = CutoffPeriodic
                            then minimumImage (component (positions context ! i) j)
                                   (component (periodicBoxSize context) j)
                            else component (positions context ! i) j))"
proof -
  from assms(1) have "length (posq k) = 4 * numParticles k"
    by (rule initialize_posq_length)
  from this assms(2) show ?thesis by (rule execute_result)
qed

theorem execute_returns_zero_witness:
  "initialize recordingCollaborators (newKernel None) () threeParticleForce = Inr threeParticleKernel
   \<and> numParticles threeParticleKernel \<le> length (positions smallBoxContext)
   \<and> positions smallBoxContext ! 1 = (1, 0, 0)
   \<and> periodicBoxSize smallBoxContext = (1, 1, 1)
   \<and> (\<exists>pq.
         execute recordingCollaborators threeParticleKernel smallBoxContext True True True True =
           Inr (0, threeParticleKernel\<lparr>posq := pq, neighborList := Some (pq, True)\<rparr>,
                smallBoxContext)
         \<and> length pq = length (posq threeParticleKernel)
         \<and> pq ! 3 = posq threeParticleKernel ! 3 \<and> pq ! 7 = posq threeParticleKernel ! 7
         \<and> pq ! 11 = posq threeParticleKernel ! 11
         \<and> pq ! 4 = 0 \<and> pq ! 5 = 0 \<and> pq ! 6 = 0)"
proof -
  have n: "numParticles threeParticleKernel \<le> length (positions smallBoxContext)"
    by (simp add: threeParticleKernel_def smallBoxContext_def)
  have p: "positions smallBoxContext ! 1 = (1, 0, 0)"
    and b: "periodicBoxSize smallBoxContext = (1, 1, 1)"
    by (simp_all add: smallBoxContext_def)
  have n3: "numParticles threeParticleKernel = 3"
    and m: "nonbondedMethod threeParticleKernel = CutoffPeriodic"
    by (simp_all add: threeParticleKernel_def)
  from execute_returns_zero [OF initialize_threeParticle n, of True True True True]
  obtain pq where
    e: "execute recordingCollaborators threeParticleKernel smallBoxContext True True True True =
           Inr (0, threeParticleKernel\<lparr>posq := pq,
                  neighborList := computeNeighborList recordingCollaborators
                    (neighborList threeParticleKernel) (numParticles threeParticleKernel) pq
                    (exclusions threeParticleKernel)
                    (toFloat recordingCollaborators (component (periodicBoxSize smallBoxContext) 0),
                     toFloat recordingCollaborators (component (periodicBoxSize smallBoxContext) 1),
                     toFloat recordingCollaborators (component (periodicBoxSize smallBoxContext) 2))
                    (isPeriodicMethod (nonbondedMethod threeParticleKernel))
                    (nonbondedCutoff threeParticleKernel)\<rparr>, smallBoxContext)"
    and l: "length pq = length (posq threeParticleKernel)"
    and c: "\<forall>i < numParticles threeParticleKernel.
              pq ! (4 * i + 3) = posq threeParticleKernel ! (4 * i + 3)"
    and v: "\<forall>i < numParticles threeParticleKernel. \<forall>j < 3. pq ! (4 * i + j) =
                 toFloat recordingCollaborators
                   (if nonbondedMethod threeParticleKernel = CutoffPeriodic
                    then minimumImage (component (positions smallBoxContext ! i) j)
                           (component (periodicBoxSize smallBoxContext) j)
                    else component (positions smallBoxContext ! i) j)"
    by blast
  from e m have e': "execute recordingCollaborators threeParticleKernel smallBoxContext
           True True True True =
           Inr (0, threeParticleKernel\<lparr>posq := pq, neighborList := Some (pq, True)\<rparr>,
                smallBoxContext)"
    by (simp add: recordingCollaborators_def isPeriodicMethod_def)
  from c [rule_format, of 0] c [rule_format, of 1] c [rule_format, of 2] n3
  have ch: "pq ! 3 = posq threeParticleKernel ! 3" "pq ! 7 = posq threeParticleKernel ! 7"
    "pq ! 11 = posq threeParticleKernel ! 11" by simp_all
  from v [rule_format, of 1 0] v [rule_format, of 1 1] v [rule_format, of 1 2] n3 m p b
  have ps: "pq ! 4 = 0" "pq ! 5 = 0" "pq ! 6 = 0"
    by (simp_all add: minimumImage_def recordingCollaborators_def)
  from initialize_threeParticle n p b e' l ch ps show ?thesis by blast
qed

text \<open>
  C1 (as stated, refuted). Two particles of charge +1 and -1 at distance 1, no cutoff:
  with \<open>includeEnergy\<close> set, \<open>execute\<close> returns 0 and not the Coulomb energy of the
  pair, which for OpenMM's Coulomb constant 138.935456 is -138.935456.
\<close>

theorem execute_two_particles_counterexample:
  "initialize recordingCollaborators (newKernel None) () twoParticleForce = Inr twoParticleKernel
   \<and> distance (positions twoParticleContext ! 0) (positions twoParticleContext ! 1) = 1
   \<and> returnedEnergy
        (execute recordingCollaborators twoParticleKernel twoParticleContext True True True True)
       = Some 0
   \<and> returnedEnergy
        (execute recordingCollaborators twoParticleKernel twoParticleContext True True True True)
       \<noteq> Some (coulombEnergy 138.935456 1 (- 1) 1)"
proof -
  have "distance (positions twoParticleContext ! 0) (positions twoParticleContext ! 1) = 1"
    by (simp add: twoParticleContext_def)
  moreover have "returnedEnergy
        (execute recordingCollaborators twoParticleKernel twoParticleContext True True True True)
       = Some 0"
    by (simp add: execute_twoParticle)
  moreover have "coulombEnergy 138.935456 1 (- 1) 1 \<noteq> 0"
    by (simp add: coulombEnergy_def)
  ultimately show ?thesis using initialize_twoParticle by simp
qed

text \<open>
  C1 (amended). For two particles of charge +1 and -1 at distance 1 and a kernel
  initialized with no cutoff, \<open>execute\<close> returns the energy 0, whether \<open>includeEnergy\<close>
  is set or not.
\<close>

theorem execute_two_particles_energy:
  assumes "initialize E k0 system force = Inr k"
    and "map fst (particleParameters force) = [1, - 1]"
    and "getNonbondedMethod force = NoCutoff"
    and "positions context = [p1, p2]"
    and "distance p1 p2 = 1"
  shows "returnedEnergy
           (execute E k context includeForces includeEnergy includeDirect includeReciprocal)
         = Some 0"
proof -
  from assms(2) have "length (map fst (particleParameters force)) = 2" by simp
  then have "getNumParticles force = 2" by (simp add: getNumParticles_def)
  moreover from assms(1) have "numParticles k = getNumParticles force"
    by (rule initialize_Inr)
  ultimately have n: "numParticles k \<le> length (positions context)" using assms(4) by simp
  from assms(1) have "length (posq k) = 4 * numParticles k"
    by (rule initialize_posq_length)
  from execute_result[OF this n, of E includeForces includeEnergy includeDirect
      includeReciprocal]
  show ?thesis by auto
qed

theorem execute_two_particles_energy_witness:
  "initialize recordingCollaborators (newKernel None) () twoParticleForce = Inr twoParticleKernel
   \<and> map fst (particleParameters twoParticleForce) = [1, - 1]
   \<and> getNonbondedMethod twoParticleForce = NoCutoff
   \<and> positions twoParticleContext = [(0, 0, 0), (1, 0, 0)]
   \<and> distance (0, 0, 0) (1, 0, 0) = 1
   \<and> returnedEnergy
        (execute recordingCollaborators twoParticleKernel twoParticleContext False True True True)
       = Some 0
   \<and> returnedEnergy
        (execute recordingCollaborators twoParticleKernel twoParticleContext False False True True)
       = Some 0"
proof -
  have a: "map fst (particleParameters twoParticleForce) = [1, - 1]"
    and b: "getNonbondedMethod twoParticleForce = NoCutoff"
    by (simp_all add: twoParticleForce_def)
  have c: "positions twoParticleContext = [(0, 0, 0), (1, 0, 0)]"
    by (simp add: twoParticleContext_def)
  have d: "distance (0, 0, 0) (1, 0, 0) = 1" by simp
  note t = execute_two_particles_energy [OF initialize_twoParticle a b c d]
  from initialize_twoParticle a b c d t [of False True True True] t [of False False True True]
  show ?thesis by blast
qed

text \<open>
  C2 (as stated, refuted). A kernel initialized with the periodic cutoff method and
  cutoff 1, in a box of edge 1: \<open>execute\<close> does not fail. It runs the neighbor search
  (with the periodicity flag set) and returns 0.
\<close>

theorem execute_small_box_counterexample:
  "initialize recordingCollaborators (newKernel None) () threeParticleForce = Inr threeParticleKernel
   \<and> isPeriodicMethod (nonbondedMethod threeParticleKernel)
   \<and> boxTooSmall (periodicBoxSize smallBoxContext) (nonbondedCutoff threeParticleKernel)
   \<and> execute recordingCollaborators threeParticleKernel smallBoxContext True True True True
       \<noteq> Inl PeriodicBoxTooSmall
   \<and> execute recordingCollaborators threeParticleKernel smallBoxContext True True True True
       = Inr (0, threeParticleKernel\<lparr>posq := [0, 0, 0, 1, 0, 0, 0, - 1, 0, 0, 0, 0],
                   neighborList := Some ([0, 0, 0, 1, 0, 0, 0, - 1, 0, 0, 0, 0], True)\<rparr>,
              smallBoxContext)"
  using initialize_threeParticle
  by (simp add: execute_smallBox)
    (simp add: threeParticleKernel_def smallBoxContext_def isPeriodicMethod_def boxTooSmall_def)

text \<open>
  C2 (amended). For a kernel that \<open>initialize\<close> returned with a periodic method and a
  context with a position for each particle, \<open>execute\<close> does not fail when an edge of
  the box is smaller than twice the cutoff: it runs the neighbor search with the
  periodicity flag set and returns 0 and the context as it was, so that no force value
  is written.
\<close>

theorem execute_small_box:
  assumes "initialize E k0 system force = Inr k"
    and "isPeriodicMethod (nonbondedMethod k)"
    and "boxTooSmall (periodicBoxSize context) (nonbondedCutoff k)"
    and "numParticles k \<le> length (positions context)"
  shows "\<exists>pq.
           execute E k context includeForces includeEnergy includeDirect includeReciprocal =
             Inr (0, k\<lparr>posq := pq,
                       neighborList := computeNeighborList E (neighborList k) (numParticles k) pq
                         (exclusions k)
                         (toFloat E (component (periodicBoxSize context) 0),
                          toFloat E (component (periodicBoxSize context) 1),
                          toFloat E (component (periodicBoxSize context) 2))
                         True (nonbondedCutoff k)\<rparr>, context)"
proof -
  from assms(1) have "length (posq k) = 4 * numParticles k"
    by (rule initialize_posq_length)
  from execute_result[OF this assms(4), of E includeForces includeEnergy includeDirect
      includeReciprocal] assms(2)
  show ?thesis by auto
qed

theorem execute_small_box_witness:
  "initialize recordingCollaborators (newKernel None) () threeParticleForce = Inr threeParticleKernel
   \<and> isPeriodicMethod (nonbondedMethod threeParticleKernel)
   \<and> boxTooSmall (periodicBoxSize smallBoxContext) (nonbondedCutoff threeParticleKernel)
   \<and> numParticles threeParticleKernel \<le> length (positions smallBoxContext)
   \<and> (\<exists>pq. execute recordingCollaborators threeParticleKernel smallBoxContext True True True True =
             Inr (0, threeParticleKernel\<lparr>posq := pq, neighborList := Some (pq, True)\<rparr>,
                  smallBoxContext))"
proof -
  have a: "isPeriodicMethod (nonbondedMethod threeParticleKernel)"
    and b: "boxTooSmall (periodicBoxSize smallBoxContext) (nonbondedCutoff threeParticleKernel)"
    and c: "numParticles threeParticleKernel \<le> length (positions smallBoxContext)"
    by (simp_all add: threeParticleKernel_def smallBoxContext_def isPeriodicMethod_def
        boxTooSmall_def)
  from execute_small_box [OF initialize_threeParticle a b c, of True True True True]
  have "\<exists>pq. execute recordingCollaborators threeParticleKernel smallBoxContext True True True True =
             Inr (0, threeParticleKernel\<lparr>posq := pq, neighborList := Some (pq, True)\<rparr>,
                  smallBoxContext)"
    by (simp add: recordingCollaborators_def)
  with initialize_threeParticle a b c show ?thesis by blast
qed

text \<open>
  C3 (the code at the failing input). A kernel initialized for Ewald summation, one
  particle at x = 3 in a box of edge 4: \<open>execute\<close> stores the coordinate 3 unwrapped
  and hands it to the neighbor search with the periodicity flag set, where the
  minimum-image wrap of the claim gives -1.
\<close>

theorem execute_ewald_not_wrapped:
  "initialize recordingCollaborators (newKernel None) () ewaldForce = Inr ewaldKernel
   \<and> isPeriodicMethod (nonbondedMethod ewaldKernel)
   \<and> execute recordingCollaborators ewaldKernel ewaldContext True True True True
       = Inr (0, ewaldKernel\<lparr>posq := [3, 0, 0, 1],
                   neighborList := Some ([3, 0, 0, 1], True)\<rparr>, ewaldContext)
   \<and> toFloat recordingCollaborators
        (minimumImage (component (positions ewaldContext ! 0) 0)
           (component (periodicBoxSize ewaldContext) 0)) = - 1"
  using initialize_ewald
  by (simp add: execute_ewald)
    (simp add: ewaldKernel_def ewaldContext_def isPeriodicMethod_def minimumImage_def
      recordingCollaborators_def)



text \<open>
  C7 (as stated, refuted). A configuration with one particle and an exception that pairs
  particle 0 with itself: after \<open>initialize\<close>, 0 is in the exclusion set of particle 0.
\<close>

theorem initialize_self_exclusion_counterexample:
  "constructed (newKernel None :: (real list \<times> bool) option CpuCalcNonbondedForceKernel)
   \<and> initialize recordingCollaborators (newKernel None) () selfExceptionForce
       = Inr selfExceptionKernel
   \<and> exceptionParameters selfExceptionForce = [(0, 0, 1, 1, 1)]
   \<and> 0 \<in> exclusions selfExceptionKernel ! 0"
  using initialize_selfException
  by (simp add: constructed_def newKernel_def selfExceptionForce_def selfExceptionKernel_def)

text \<open>
  C7 (amended). After \<open>initialize\<close> on a newly constructed kernel the exclusion sets are
  symmetric: every configured exception (p1, p2) has p2 in the set of p1 and p1 in the
  set of p2, and for all particles a and b, b is in the set of a exactly when a is in
  the set of b. A particle is in its own exclusion set exactly when a configured
  exception pairs it with itself; so there is no self-exclusion when every configured
  exception has two different particles.
\<close>

theorem initialize_exclusions_symmetric:
  assumes "constructed k0" and "initialize E k0 system force = Inr k"
  shows "(\<forall>(particle1, particle2, chargeProd, sigma, epsilon) \<in> set (exceptionParameters force).
            particle2 \<in> exclusions k ! nat particle1
            \<and> particle1 \<in> exclusions k ! nat particle2)
         \<and> (\<forall>a < numParticles k. \<forall>b < numParticles k.
               int b \<in> exclusions k ! a \<longleftrightarrow> int a \<in> exclusions k ! b)
         \<and> (\<forall>a < numParticles k.
               int a \<in> exclusions k ! a \<longleftrightarrow>
                 (\<exists>(particle1, particle2, chargeProd, sigma, epsilon) \<in> set (exceptionParameters force).
                    particle1 = int a \<and> particle2 = int a))"
proof (intro conjI)
  show "\<forall>(particle1, particle2, chargeProd, sigma, epsilon) \<in> set (exceptionParameters force).
            particle2 \<in> exclusions k ! nat particle1
            \<and> particle1 \<in> exclusions k ! nat particle2"
    using initialize_excludes_exceptions[OF assms(2)] by blast
next
  show "\<forall>a < numParticles k. \<forall>b < numParticles k.
               int b \<in> exclusions k ! a \<longleftrightarrow> int a \<in> exclusions k ! b"
    using initialize_exclusions_constructed[OF assms] configuredExclusion_sym by blast
next
  show "\<forall>a < numParticles k.
               int a \<in> exclusions k ! a \<longleftrightarrow>
                 (\<exists>(particle1, particle2, chargeProd, sigma, epsilon) \<in> set (exceptionParameters force).
                    particle1 = int a \<and> particle2 = int a)"
    using initialize_exclusions_constructed[OF assms] configuredExclusion_self by blast
qed

theorem initialize_exclusions_symmetric_witness:
  "constructed (newKernel None :: (real list \<times> bool) option CpuCalcNonbondedForceKernel)
   \<and> initialize recordingCollaborators (newKernel None) () threeParticleForce
       = Inr threeParticleKernel
   \<and> exceptionParameters threeParticleForce = [(0, 1, 1/2, 1, 1/5), (1, 2, 0, 1, 0)]
   \<and> 1 \<in> exclusions threeParticleKernel ! 0 \<and> 0 \<in> exclusions threeParticleKernel ! 1
   \<and> 2 \<in> exclusions threeParticleKernel ! 1 \<and> 1 \<in> exclusions threeParticleKernel ! 2
   \<and> 0 \<notin> exclusions threeParticleKernel ! 0 \<and> 1 \<notin> exclusions threeParticleKernel ! 1
   \<and> 2 \<notin> exclusions threeParticleKernel ! 2"
proof -
  have c: "constructed (newKernel None :: (real list \<times> bool) option CpuCalcNonbondedForceKernel)"
    by (simp add: constructed_def newKernel_def)
  have e: "exceptionParameters threeParticleForce = [(0, 1, 1/2, 1, 1/5), (1, 2, 0, 1, 0)]"
    by (simp add: threeParticleForce_def)
  have n: "numParticles threeParticleKernel = 3" by (simp add: threeParticleKernel_def)
  note t = initialize_exclusions_symmetric [OF c initialize_threeParticle]
  from t have "\<forall>(particle1, particle2, chargeProd, sigma, epsilon) \<in> set (exceptionParameters threeParticleForce).
                 particle2 \<in> exclusions threeParticleKernel ! nat particle1
                 \<and> particle1 \<in> exclusions threeParticleKernel ! nat particle2"
    by blast
  then have m: "1 \<in> exclusions threeParticleKernel ! 0 \<and> 0 \<in> exclusions threeParticleKernel ! 1
   \<and> 2 \<in> exclusions threeParticleKernel ! 1 \<and> 1 \<in> exclusions threeParticleKernel ! 2"
    unfolding e by (simp add: eval_nat_numeral)
  from t have s: "\<forall>a < numParticles threeParticleKernel.
               int a \<in> exclusions threeParticleKernel ! a \<longleftrightarrow>
                 (\<exists>(particle1, particle2, chargeProd, sigma, epsilon) \<in> set (exceptionParameters threeParticleForce).
                    particle1 = int a \<and> particle2 = int a)"
    by blast
  from s [rule_format, of 0] s [rule_format, of 1] s [rule_format, of 2]
  have "0 \<notin> exclusions threeParticleKernel ! 0 \<and> 1 \<notin> exclusions threeParticleKernel ! 1
   \<and> 2 \<notin> exclusions threeParticleKernel ! 2"
    unfolding e n by simp
  with c initialize_threeParticle e m show ?thesis by blast
qed

end
